theory Spec2Isabelle
  imports Complex_Main "HOL-Library.AList" "HOL-Library.Char_ord" "HOL-Library.List_Lexorder"
begin

section \<open>The monthly budget ledger of the space budget tracker\<close>

text \<open>
  The development embeds the ledger operations of \<^verbatim>\<open>src/App.js\<close> and the analytics of
  \<^verbatim>\<open>src/Insights.js\<close>.

  Numbers. A JavaScript number is an IEEE double. Amounts, incomes and limits are modelled
  as \<^typ>\<open>real\<close>: rounding, \<^verbatim>\<open>NaN\<close> and the infinities are not part of the model.
  On a stored number \<^verbatim>\<open>parseFloat(x)\<close> is \<open>x\<close> itself, and \<^verbatim>\<open>x || 0\<close> is \<open>x\<close>
  (it differs from \<open>x\<close> only for \<^verbatim>\<open>NaN\<close> and \<^verbatim>\<open>undefined\<close>). Expense ids are
  readings of the millisecond clock, modelled as \<^typ>\<open>int\<close>.

  Objects. The ledger \<^verbatim>\<open>monthlyBudgets\<close> is an object keyed by month. It is modelled as an
  association list in property order: \<^verbatim>\<open>Object.keys(o)\<close> is \<open>map fst\<close>, \<^verbatim>\<open>o[k]\<close> is
  \<open>map_of o k\<close>, and the spread \<^verbatim>\<open>{...o, [k]: v}\<close> is \<^const>\<open>AList.update\<close>, which replaces
  the value of an existing key in place and appends a new key at the end. An object holds
  each key once; the lists that stand for objects have distinct keys. (JavaScript lists
  keys that look like array indices first; month keys and category ids are not such keys.)

  Closures. A handler or timer callback reads the state of the render it was created in
  and writes through updater functions to the state of the moment. Where the two can
  differ, the model takes the state read as an argument of its own.
\<close>

subsection \<open>Data model\<close>

record expense =
  eid :: int
  ename :: string
  amount :: real
  category :: string
  isRecurring :: bool

record monthData =
  income :: real
  incomeRecurring :: bool
  expenses :: "expense list"
  categoryLimits :: "string \<rightharpoonup> real"

type_synonym ledger = "(string \<times> monthData) list"

record category =
  cid :: string
  cname :: string
  color :: string

definition Object_keys :: "('k \<times> 'v) list \<Rightarrow> 'k list" where
  "Object_keys obj = map fst obj"

definition Object_values :: "('k \<times> 'v) list \<Rightarrow> 'v list" where
  "Object_values obj = map snd obj"


subsection \<open>Insights.js: all-time statistics and the budget score\<close>







subsection \<open>Insights.js: month-over-month trend\<close>

datatype failure =
  TypeError \<comment> \<open>the exception JavaScript throws on reading a property of \<^verbatim>\<open>undefined\<close>\<close>
| NotANumber \<comment> \<open>the source goes on with \<^verbatim>\<open>NaN\<close> or an infinity, which the model's numbers lack\<close>









subsection \<open>Insights.js: category breakdown\<close>

record catTotal =
  cat :: category
  total :: real

record catShare = catTotal +
  percentage :: real

text \<open>
  \<^verbatim>\<open>categoryTotals\<close> is an object keyed by category id whose values are
  \<^verbatim>\<open>{...cat, total}\<close>. Reading \<^verbatim>\<open>categoryTotals[exp.category].total\<close> for a category
  that is not in the registry throws.
\<close>

definition initCategoryTotals :: "category list \<Rightarrow> (string \<times> catTotal) list" where
  "initCategoryTotals categories =
     fold (\<lambda>c obj. AList.update (cid c) \<lparr>cat = c, total = 0\<rparr> obj) categories []"

fun addExpenses ::
  "expense list \<Rightarrow> (string \<times> catTotal) list \<times> real \<Rightarrow> failure + (string \<times> catTotal) list \<times> real"
where
  "addExpenses [] acc = Inr acc"
| "addExpenses (ex # es) (obj, totalSpending) =
     (case map_of obj (category ex) of
        None \<Rightarrow> Inl TypeError
      | Some ct \<Rightarrow>
          addExpenses es
            (AList.update (category ex) (ct\<lparr>total := total ct + amount ex\<rparr>) obj,
             totalSpending + amount ex))"

fun addMonths ::
  "monthData list \<Rightarrow> (string \<times> catTotal) list \<times> real \<Rightarrow> failure + (string \<times> catTotal) list \<times> real"
where
  "addMonths [] acc = Inr acc"
| "addMonths (data # ds) acc =
     (case addExpenses (expenses data) acc of
        Inl e \<Rightarrow> Inl e
      | Inr acc' \<Rightarrow> addMonths ds acc')"

text \<open>
  \<^verbatim>\<open>.sort((a, b) => b.total - a.total)\<close> is a stable sort by descending total, here the
  stable insertion sort on the negated total.
\<close>

definition getCategoryBreakdown :: "category list \<Rightarrow> ledger \<Rightarrow> failure + catShare list" where
  "getCategoryBreakdown categories monthlyBudgets =
     (case addMonths (Object_values monthlyBudgets) (initCategoryTotals categories, 0) of
        Inl e \<Rightarrow> Inl e
      | Inr (categoryTotals, totalSpending) \<Rightarrow>
          Inr (sort_key (\<lambda>r. - total r)
                 (map (\<lambda>ct. \<lparr>cat = cat ct, total = total ct,
                              percentage = (if totalSpending > 0
                                            then (total ct / totalSpending) * 100 else 0)\<rparr>)
                    (filter (\<lambda>ct. total ct > 0) (Object_values categoryTotals)))))"







subsection \<open>App.js: the state of the component\<close>

text \<open>
  The text of a number field of the form reaches the code as a string and is read with
  \<^verbatim>\<open>parseFloat\<close>: leading white space, an optional sign, decimal digits with an optional
  fraction, an optional exponent; whatever follows is ignored. The result is \<open>None\<close> where
  JavaScript yields \<^verbatim>\<open>NaN\<close> (no digits) or an infinity (the literal \<^verbatim>\<open>Infinity\<close>).
\<close>

definition isDigit :: "char \<Rightarrow> bool" where
  "isDigit c = (CHR ''0'' \<le> c \<and> c \<le> CHR ''9'')"

definition isWhiteSpace :: "char \<Rightarrow> bool" where
  "isWhiteSpace c = (c = CHR '' '' \<or> (9::nat) \<le> of_char c \<and> of_char c \<le> (13::nat))"

definition digitsValue :: "string \<Rightarrow> nat" where
  "digitsValue ds = foldl (\<lambda>n c. 10 * n + (of_char c - 48)) 0 ds"

definition signPart :: "string \<Rightarrow> bool \<times> string" where
  "signPart s =
     (case s of
        [] \<Rightarrow> (False, [])
      | c # r \<Rightarrow>
          if c = CHR ''-'' then (True, r) else if c = CHR ''+'' then (False, r) else (False, s))"

definition exponentPart :: "string \<Rightarrow> int" where
  "exponentPart s =
     (case s of
        [] \<Rightarrow> 0
      | c # r \<Rightarrow>
          if c = CHR ''e'' \<or> c = CHR ''E'' then
            (case signPart r of
               (neg, r') \<Rightarrow>
                 let ds = takeWhile isDigit r' in
                 if ds = [] then 0
                 else if neg then - int (digitsValue ds) else int (digitsValue ds))
          else 0)"

definition parseFloat :: "string \<Rightarrow> real option" where
  "parseFloat s =
     (case signPart (dropWhile isWhiteSpace s) of
        (neg, s2) \<Rightarrow>
          let ip = takeWhile isDigit s2;
              r1 = dropWhile isDigit s2;
              fp = (case r1 of
                      [] \<Rightarrow> []
                    | c # r \<Rightarrow> if c = CHR ''.'' then takeWhile isDigit r else []);
              r2 = (case r1 of
                      [] \<Rightarrow> []
                    | c # r \<Rightarrow> if c = CHR ''.'' then dropWhile isDigit r else r1)
          in
            if ip = [] \<and> fp = [] then None
            else
              let mantissa = real (digitsValue ip) + real (digitsValue fp) / 10 ^ length fp;
                  e = exponentPart r2;
                  v = (if e \<ge> 0 then mantissa * 10 ^ nat e else mantissa / 10 ^ nat (- e))
              in Some (if neg then - v else v))"

text \<open>The form for a new expense; \<^verbatim>\<open>amount\<close> holds the text of its number field.\<close>

record newExpenseForm =
  formName :: string
  formAmount :: string
  formCategory :: string
  formIsRecurring :: bool

text \<open>
  \<^verbatim>\<open>editingExpenseData\<close> starts as a copy of the expense, whose amount is a number, and
  takes the text of the field once the user types into it.
\<close>

datatype amountField = Text string | Number real

record editData =
  editId :: int
  editName :: string
  editAmount :: amountField
  editCategory :: string
  editIsRecurring :: bool

text \<open>A value is truthy unless it is the empty string or the number zero.\<close>

fun truthy :: "amountField \<Rightarrow> bool" where
  "truthy (Text s) = (s \<noteq> [])"
| "truthy (Number v) = (v \<noteq> 0)"

fun parseFloatField :: "amountField \<Rightarrow> real option" where
  "parseFloatField (Text s) = parseFloat s"
| "parseFloatField (Number v) = Some v"

text \<open>
  The state of \<^verbatim>\<open>NESBudgetCalculator\<close>. The objects \<^verbatim>\<open>alertsShown\<close> and
  \<^verbatim>\<open>populatedMonthsRef.current\<close> only ever map keys to \<^verbatim>\<open>true\<close>; they are the sets of
  their keys. The screen and the sound switch play no part in the ledger and are left out.
\<close>

record app =
  monthlyBudgets :: ledger
  currentMonth :: string
  newExpense :: newExpenseForm
  isLoaded :: bool
  editingExpenseId :: "int option"
  editingExpenseData :: "editData option"
  notificationsEnabled :: bool
  alertsShown :: "string set"
  populatedMonthsRef :: "string set"

definition getCurrentMonthData :: "app \<Rightarrow> monthData" where
  "getCurrentMonthData st =
     (case map_of (monthlyBudgets st) (currentMonth st) of
        Some d \<Rightarrow> d
      | None \<Rightarrow> \<lparr>income = 0, incomeRecurring = False, expenses = [], categoryLimits = Map.empty\<rparr>)"

definition getIncome :: "app \<Rightarrow> real" where
  "getIncome st = income (getCurrentMonthData st)"

definition getIncomeRecurring :: "app \<Rightarrow> bool" where
  "getIncomeRecurring st = incomeRecurring (getCurrentMonthData st)"

definition getExpenses :: "app \<Rightarrow> expense list" where
  "getExpenses st = expenses (getCurrentMonthData st)"

definition getCategoryLimits :: "app \<Rightarrow> string \<rightharpoonup> real" where
  "getCategoryLimits st = categoryLimits (getCurrentMonthData st)"

subsection \<open>App.js: single-month mutations\<close>

definition setCategoryLimit :: "string \<Rightarrow> real \<Rightarrow> app \<Rightarrow> app" where
  "setCategoryLimit categoryId limit st =
     (let currentLimits = getCategoryLimits st;
          newLimits = (if limit > 0 then currentLimits(categoryId \<mapsto> limit)
                       else currentLimits(categoryId := None))
      in st\<lparr>monthlyBudgets :=
              AList.update (currentMonth st)
                ((getCurrentMonthData st)\<lparr>categoryLimits := newLimits\<rparr>) (monthlyBudgets st)\<rparr>)"

text \<open>The second argument of \<^verbatim>\<open>setIncome\<close> is optional: \<open>None\<close> is \<^verbatim>\<open>undefined\<close>.\<close>

definition setIncome :: "real \<Rightarrow> bool option \<Rightarrow> app \<Rightarrow> app" where
  "setIncome v isRec st =
     st\<lparr>monthlyBudgets :=
          AList.update (currentMonth st)
            ((getCurrentMonthData st)
               \<lparr>income := v,
                incomeRecurring :=
                  (case isRec of Some b \<Rightarrow> b | None \<Rightarrow> incomeRecurring (getCurrentMonthData st))\<rparr>)
            (monthlyBudgets st)\<rparr>"

definition toggleIncomeRecurring :: "app \<Rightarrow> app" where
  "toggleIncomeRecurring st = setIncome (getIncome st) (Some (\<not> getIncomeRecurring st)) st"

definition setExpenses :: "expense list \<Rightarrow> app \<Rightarrow> app" where
  "setExpenses newExpenses st =
     st\<lparr>monthlyBudgets :=
          AList.update (currentMonth st)
            ((getCurrentMonthData st)\<lparr>expenses := newExpenses\<rparr>) (monthlyBudgets st)\<rparr>"



text \<open>
  \<^verbatim>\<open>handleAddExpense\<close>, with \<open>now\<close> the reading of \<^verbatim>\<open>Date.now()\<close>. The guard asks
  for a truthy name and a truthy amount text, that is for two non-empty strings. Where
  the amount text does not parse, the source appends an expense whose amount is
  \<^verbatim>\<open>NaN\<close>; the model reports \<^const>\<open>NotANumber\<close> in its place. The sounds are left out,
  and the limit check that the handler schedules for 100 ms later is a step of its own
  (\<open>Check\<close> below), run on the render the handler belongs to.
\<close>

definition handleAddExpense :: "int \<Rightarrow> app \<Rightarrow> failure + app" where
  "handleAddExpense now st =
     (if formName (newExpense st) \<noteq> [] \<and> formAmount (newExpense st) \<noteq> [] then
        (case parseFloat (formAmount (newExpense st)) of
           None \<Rightarrow> Inl NotANumber
         | Some a \<Rightarrow>
             Inr ((setExpenses
                     (getExpenses st @
                        [\<lparr>eid = now, ename = formName (newExpense st), amount = a,
                          category = formCategory (newExpense st),
                          isRecurring = formIsRecurring (newExpense st)\<rparr>]) st)
                  \<lparr>newExpense := \<lparr>formName = [], formAmount = [], formCategory = ''food'',
                                  formIsRecurring = False\<rparr>\<rparr>))
      else Inr st)"


definition handleDeleteExpense :: "int \<Rightarrow> app \<Rightarrow> app" where
  "handleDeleteExpense i st = setExpenses (filter (\<lambda>expense. eid expense \<noteq> i) (getExpenses st)) st"

definition toggleExpenseRecurring :: "int \<Rightarrow> app \<Rightarrow> app" where
  "toggleExpenseRecurring i st =
     setExpenses
       (map (\<lambda>expense. if eid expense = i
                        then expense\<lparr>isRecurring := \<not> isRecurring expense\<rparr> else expense)
          (getExpenses st)) st"

definition handleStartEdit :: "expense \<Rightarrow> app \<Rightarrow> app" where
  "handleStartEdit expense st =
     st\<lparr>editingExpenseId := Some (eid expense),
        editingExpenseData :=
          Some \<lparr>editId = eid expense, editName = ename expense,
                editAmount = Number (amount expense), editCategory = category expense,
                editIsRecurring = isRecurring expense\<rparr>\<rparr>"

text \<open>
  \<^verbatim>\<open>handleSaveEdit\<close> reads \<^verbatim>\<open>editingExpenseData.name\<close> first, which throws when no edit
  is in progress.
\<close>

definition handleSaveEdit :: "app \<Rightarrow> failure + app" where
  "handleSaveEdit st =
     (case editingExpenseData st of
        None \<Rightarrow> Inl TypeError
      | Some d \<Rightarrow>
          if editName d \<noteq> [] \<and> truthy (editAmount d) then
            (case parseFloatField (editAmount d) of
               None \<Rightarrow> Inl NotANumber
             | Some a \<Rightarrow>
                 Inr ((setExpenses
                         (map (\<lambda>expense.
                                 if Some (eid expense) = editingExpenseId st
                                 then \<lparr>eid = editId d, ename = editName d, amount = a,
                                       category = editCategory d, isRecurring = editIsRecurring d\<rparr>
                                 else expense)
                            (getExpenses st)) st)
                      \<lparr>editingExpenseId := None, editingExpenseData := None\<rparr>))
          else Inr st)"

subsection \<open>App.js: category totals and limit alerts\<close>

text \<open>
  The category registry. The display names carry a leading pictograph in the source,
  which is left out here.
\<close>

definition categories :: "category list" where
  "categories =
     [\<lparr>cid = ''food'', cname = ''Food'', color = ''#ff6b9d''\<rparr>,
      \<lparr>cid = ''housing'', cname = ''Housing'', color = ''#00e5ff''\<rparr>,
      \<lparr>cid = ''transport'', cname = ''Transport'', color = ''#ffd700''\<rparr>,
      \<lparr>cid = ''entertainment'', cname = ''Entertainment'', color = ''#00ff00''\<rparr>,
      \<lparr>cid = ''utilities'', cname = ''Utilities'', color = ''#ff6b00''\<rparr>,
      \<lparr>cid = ''debt'', cname = ''Debt'', color = ''#ff4444''\<rparr>,
      \<lparr>cid = ''personal'', cname = ''Personal Care & Recreation'', color = ''#ff69b4''\<rparr>,
      \<lparr>cid = ''savings'', cname = ''Savings'', color = ''#ffd700''\<rparr>,
      \<lparr>cid = ''vacation'', cname = ''Vacation Fund'', color = ''#00bfff''\<rparr>,
      \<lparr>cid = ''other'', cname = ''Other'', color = ''#c084fc''\<rparr>]"

record catLimit = catShare +
  limit :: real
  percentOfLimit :: real
  isOverLimit :: bool
  isNearLimit :: bool



text \<open>The object built for one category in the \<^verbatim>\<open>categories.map\<close> of \<^verbatim>\<open>calculateCategoryTotals\<close>.\<close>

definition categoryRow :: "real \<Rightarrow> (string \<rightharpoonup> real) \<Rightarrow> category \<Rightarrow> real \<Rightarrow> catLimit" where
  "categoryRow inc limits c tot =
     (let lim = (case limits (cid c) of Some l \<Rightarrow> l | None \<Rightarrow> 0);
          pol = (if lim > 0 then (tot / lim) * 100 else 0)
      in \<lparr>cat = c, total = tot,
          percentage = (if inc > 0 then (tot / inc) * 100 else 0),
          limit = lim,
          percentOfLimit = pol,
          isOverLimit = (lim > 0 \<and> tot > lim),
          isNearLimit = (lim > 0 \<and> tot \<ge> lim * 0.8 \<and> tot \<le> lim)\<rparr>)"







text \<open>The updater \<^verbatim>\<open>setAlertsShown(prev => ({...prev, [notificationKey]: true}))\<close>, once per key.\<close>

definition setAlertsShown :: "string list \<Rightarrow> app \<Rightarrow> app" where
  "setAlertsShown keys st = st\<lparr>alertsShown := alertsShown st \<union> set keys\<rparr>"





subsection \<open>App.js: recurring propagation\<close>

text \<open>
  The most recent month before the current one:
  \<^verbatim>\<open>Object.keys(monthlyBudgets).sort().reverse().find(m => m < currentMonth)\<close>.
\<close>

definition previousMonthOf :: "ledger \<Rightarrow> string \<Rightarrow> string option" where
  "previousMonthOf mb cur = List.find (\<lambda>m. m < cur) (rev (sort (Object_keys mb)))"

text \<open>
  The copy block. \<^verbatim>\<open>Date.now()\<close> is read once for each copied expense; \<open>clock i\<close> is the
  reading taken for the expense at index \<open>i\<close>. The result is \<^verbatim>\<open>newMonthData\<close> with
  \<^verbatim>\<open>hasRecurringData\<close>.
\<close>

definition buildNewMonthData :: "(nat \<Rightarrow> int) \<Rightarrow> monthData \<Rightarrow> monthData \<times> bool" where
  "buildNewMonthData clock prevData =
     (let copyIncome = (incomeRecurring prevData \<and> income prevData > 0);
          recurringExpenses =
            (if expenses prevData \<noteq> [] then
               map (\<lambda>(expense, index). expense\<lparr>eid := clock index + int index\<rparr>)
                 (zip (filter isRecurring (expenses prevData))
                      [0 ..< length (filter isRecurring (expenses prevData))])
             else [])
      in (\<lparr>income = (if copyIncome then income prevData else 0),
           incomeRecurring = copyIncome,
           expenses = (if recurringExpenses \<noteq> [] then recurringExpenses else []),
           categoryLimits = categoryLimits prevData\<rparr>,
          copyIncome \<or> recurringExpenses \<noteq> []))"

text \<open>
  The timer callback of the effect. It closes over the ledger \<open>mb\<close> and the month \<open>cur\<close> of
  the render that scheduled it, writes through the updater of \<^verbatim>\<open>setMonthlyBudgets\<close> to the
  ledger of the moment, and marks the month in \<^verbatim>\<open>populatedMonthsRef\<close> on every path.
\<close>

definition populateTimer :: "ledger \<Rightarrow> string \<Rightarrow> (nat \<Rightarrow> int) \<Rightarrow> app \<Rightarrow> app" where
  "populateTimer mb cur clock st =
     (let marked = st\<lparr>populatedMonthsRef := insert cur (populatedMonthsRef st)\<rparr> in
      case previousMonthOf mb cur of
        None \<Rightarrow> marked
      | Some previousMonth \<Rightarrow>
          if previousMonth = [] then marked
          else
            (case map_of mb previousMonth of
               None \<Rightarrow> marked
             | Some prevData \<Rightarrow>
                 let currentData = map_of mb cur;
                     hasExpenses = (case currentData of None \<Rightarrow> False | Some d \<Rightarrow> expenses d \<noteq> []);
                     hasIncome = (case currentData of None \<Rightarrow> False | Some d \<Rightarrow> income d > 0)
                 in
                   if hasExpenses \<or> hasIncome then marked
                   else
                     (case buildNewMonthData clock prevData of
                        (newMonthData, hasRecurringData) \<Rightarrow>
                          if hasRecurringData
                          then marked\<lparr>monthlyBudgets :=
                                        AList.update cur newMonthData (monthlyBudgets st)\<rparr>
                          else marked)))"

text \<open>
  The effect itself, in the sequencing the specification allows: the guard, then the
  callback at once, on the state the guard saw.
\<close>

definition autoPopulate :: "(nat \<Rightarrow> int) \<Rightarrow> app \<Rightarrow> app" where
  "autoPopulate clock st =
     (if \<not> isLoaded st \<or> currentMonth st = [] \<or> currentMonth st \<in> populatedMonthsRef st then st
      else populateTimer (monthlyBudgets st) (currentMonth st) clock st)"

subsection \<open>Example states\<close>

text \<open>
  The state once loading has finished, for a stored ledger and a selected month, with
  notifications switched on; and the month records used in the examples below.
\<close>

definition emptyForm :: newExpenseForm where
  "emptyForm = \<lparr>formName = [], formAmount = [], formCategory = ''food'', formIsRecurring = False\<rparr>"

definition loadedApp :: "ledger \<Rightarrow> string \<Rightarrow> app" where
  "loadedApp l m =
     \<lparr>monthlyBudgets = l, currentMonth = m, newExpense = emptyForm, isLoaded = True,
      editingExpenseId = None, editingExpenseData = None, notificationsEnabled = True,
      alertsShown = {}, populatedMonthsRef = {}\<rparr>"



definition gym :: expense where
  "gym = \<lparr>eid = 1000, ename = ''Gym'', amount = 50, category = ''personal'', isRecurring = True\<rparr>"

definition groceries :: expense where
  "groceries =
     \<lparr>eid = 2000, ename = ''Groceries'', amount = 80, category = ''food'', isRecurring = False\<rparr>"

definition monthA :: monthData where
  "monthA = \<lparr>income = 2000, incomeRecurring = True, expenses = [gym],
             categoryLimits = [''personal'' \<mapsto> 100]\<rparr>"

definition monthB :: monthData where
  "monthB = \<lparr>income = 0, incomeRecurring = False, expenses = [groceries],
             categoryLimits = Map.empty\<rparr>"



definition housing :: category where
  "housing = \<lparr>cid = ''housing'', cname = ''Housing'', color = ''#00e5ff''\<rparr>"



text \<open>Two months with expenses of 500 and of 800, stored latest first.\<close>

definition spent500 :: monthData where
  "spent500 = \<lparr>income = 1000, incomeRecurring = False,
     expenses = [\<lparr>eid = 1, ename = ''Rent'', amount = 500, category = ''housing'',
                  isRecurring = False\<rparr>],
     categoryLimits = Map.empty\<rparr>"

definition spent800 :: monthData where
  "spent800 = \<lparr>income = 1000, incomeRecurring = False,
     expenses = [\<lparr>eid = 2, ename = ''Rent'', amount = 500, category = ''housing'',
                  isRecurring = False\<rparr>,
                 \<lparr>eid = 3, ename = ''Trip'', amount = 300, category = ''vacation'',
                  isRecurring = False\<rparr>],
     categoryLimits = Map.empty\<rparr>"

definition twoMonths :: ledger where
  "twoMonths = [(''2025-02'', spent800), (''2025-01'', spent500)]"


section \<open>Properties\<close>

subsection \<open>Sums\<close>





subsection \<open>The budget score\<close>







subsection \<open>Single-month mutations leave the other months alone\<close>

lemma map_of_update_other: "k \<noteq> c \<Longrightarrow> map_of (AList.update c v l) k = map_of l k"
  by (simp add: update_conv')

lemma frame_setExpenses:
  "k \<noteq> currentMonth st \<Longrightarrow>
     map_of (monthlyBudgets (setExpenses es st)) k = map_of (monthlyBudgets st) k"
  by (simp add: setExpenses_def map_of_update_other)

lemma frame_setIncome:
  "k \<noteq> currentMonth st \<Longrightarrow>
     map_of (monthlyBudgets (setIncome v r st)) k = map_of (monthlyBudgets st) k"
  by (simp add: setIncome_def map_of_update_other)

lemma frame_setCategoryLimit:
  "k \<noteq> currentMonth st \<Longrightarrow>
     map_of (monthlyBudgets (setCategoryLimit c lm st)) k = map_of (monthlyBudgets st) k"
  by (simp add: setCategoryLimit_def map_of_update_other Let_def)

lemma frame_handleAddExpense:
  "k \<noteq> currentMonth st \<Longrightarrow> handleAddExpense now st = Inr st' \<Longrightarrow>
     map_of (monthlyBudgets st') k = map_of (monthlyBudgets st) k"
  by (auto simp: handleAddExpense_def frame_setExpenses split: if_splits option.splits)

lemma frame_handleSaveEdit:
  "k \<noteq> currentMonth st \<Longrightarrow> handleSaveEdit st = Inr st' \<Longrightarrow>
     map_of (monthlyBudgets st') k = map_of (monthlyBudgets st) k"
  by (auto simp: handleSaveEdit_def frame_setExpenses split: if_splits option.splits)

text \<open>
  C10. Setting the income or its recurring flag, setting a category limit, replacing the
  expense list, and adding, editing, deleting or toggling an expense write the entry of
  the current month only: under every other month key the ledger holds what it held
  before.
\<close>

theorem single_month_frame:
  "k \<noteq> currentMonth st \<Longrightarrow>
     map_of (monthlyBudgets (setIncome v r st)) k = map_of (monthlyBudgets st) k
   \<and> map_of (monthlyBudgets (toggleIncomeRecurring st)) k = map_of (monthlyBudgets st) k
   \<and> map_of (monthlyBudgets (setCategoryLimit c lm st)) k = map_of (monthlyBudgets st) k
   \<and> map_of (monthlyBudgets (setExpenses es st)) k = map_of (monthlyBudgets st) k
   \<and> map_of (monthlyBudgets (handleDeleteExpense i st)) k = map_of (monthlyBudgets st) k
   \<and> map_of (monthlyBudgets (toggleExpenseRecurring i st)) k = map_of (monthlyBudgets st) k
   \<and> (\<forall>st'. handleAddExpense now st = Inr st' \<longrightarrow>
         map_of (monthlyBudgets st') k = map_of (monthlyBudgets st) k)
   \<and> (\<forall>st'. handleSaveEdit st = Inr st' \<longrightarrow>
         map_of (monthlyBudgets st') k = map_of (monthlyBudgets st) k)"
  by (simp add: frame_setIncome frame_setCategoryLimit frame_setExpenses handleDeleteExpense_def
        toggleExpenseRecurring_def toggleIncomeRecurring_def frame_handleAddExpense
        frame_handleSaveEdit)

theorem single_month_frame_witness:
  "''2025-01'' \<noteq> currentMonth (loadedApp [(''2025-01'', monthA), (''2025-02'', monthB)] ''2025-02'')
   \<and> map_of (monthlyBudgets (setIncome 10 None
          (loadedApp [(''2025-01'', monthA), (''2025-02'', monthB)] ''2025-02''))) ''2025-01''
       = Some monthA
   \<and> map_of (monthlyBudgets (handleDeleteExpense 2000
          (loadedApp [(''2025-01'', monthA), (''2025-02'', monthB)] ''2025-02''))) ''2025-01''
       = Some monthA"
  using single_month_frame [where k = "''2025-01''" and v = 10 and r = None and i = 2000
      and st = "loadedApp [(''2025-01'', monthA), (''2025-02'', monthB)] ''2025-02''"]
  by (simp add: loadedApp_def)

subsection \<open>Recurring propagation: the guards\<close>

lemma populateTimer_ref:
  "populatedMonthsRef (populateTimer mb cur clock st) = insert cur (populatedMonthsRef st)"
  by (simp add: populateTimer_def Let_def split: option.split prod.split)


lemma autoPopulate_marks:
  "isLoaded st \<Longrightarrow> currentMonth st \<noteq> [] \<Longrightarrow>
     currentMonth st \<in> populatedMonthsRef (autoPopulate clock st)"
  by (simp add: autoPopulate_def populateTimer_ref)



text \<open>
  C2. Once the effect has run for a month in a loaded session, the month is in the
  seen-set, and every later run for that month changes nothing, whatever has happened
  to the ledger in between (the seen-set only grows): the expenses of the month after
  two runs are those after one, also when they were deleted in between.
\<close>

theorem propagate_once:
  "isLoaded st \<Longrightarrow> currentMonth st \<noteq> [] \<Longrightarrow> currentMonth st' = currentMonth st \<Longrightarrow>
   populatedMonthsRef (autoPopulate clock st) \<subseteq> populatedMonthsRef st' \<Longrightarrow>
     autoPopulate clock' st' = st'"
  using autoPopulate_marks [of st clock] by (auto simp: autoPopulate_def)

theorem propagate_once_witness:
  "getExpenses (autoPopulate (\<lambda>i. 5000) (loadedApp [(''2025-01'', monthA)] ''2025-02''))
     = [gym\<lparr>eid := 5000\<rparr>]
   \<and> getExpenses (handleDeleteExpense 5000
        (autoPopulate (\<lambda>i. 5000) (loadedApp [(''2025-01'', monthA)] ''2025-02''))) = []
   \<and> autoPopulate (\<lambda>i. 9000) (handleDeleteExpense 5000
        (autoPopulate (\<lambda>i. 5000) (loadedApp [(''2025-01'', monthA)] ''2025-02'')))
     = handleDeleteExpense 5000
        (autoPopulate (\<lambda>i. 5000) (loadedApp [(''2025-01'', monthA)] ''2025-02''))"
  using propagate_once [where st = "loadedApp [(''2025-01'', monthA)] ''2025-02''"
      and clock = "\<lambda>i. 5000" and clock' = "\<lambda>i. 9000"
      and st' = "handleDeleteExpense 5000
        (autoPopulate (\<lambda>i. 5000) (loadedApp [(''2025-01'', monthA)] ''2025-02''))"]
  by (simp add: autoPopulate_def populateTimer_def loadedApp_def previousMonthOf_def
        Object_keys_def buildNewMonthData_def monthA_def gym_def handleDeleteExpense_def
        setExpenses_def getExpenses_def getCurrentMonthData_def)

subsection \<open>Recurring propagation: what is copied\<close>




lemma copies_nth:
  "i < length rs \<Longrightarrow>
     map (\<lambda>(expense, index). expense\<lparr>eid := clock index + int index\<rparr>) (zip rs [0 ..< length rs]) ! i
       = (rs ! i)\<lparr>eid := clock i + int i\<rparr>"
  by simp









subsection \<open>Adding an expense\<close>






subsection \<open>Category totals and limits\<close>






lemma categoryRow_total [simp]: "total (categoryRow inc limits c t) = t"
  and categoryRow_cat [simp]: "cat (categoryRow inc limits c t) = c"
  by (simp_all add: categoryRow_def Let_def)






subsection \<open>Limit alerts within a session\<close>









lemma alertsShown_setExpenses [simp]: "alertsShown (setExpenses es st) = alertsShown st"
  by (simp add: setExpenses_def)

lemma alertsShown_handleDeleteExpense [simp]:
  "alertsShown (handleDeleteExpense i st) = alertsShown st"
  by (simp add: handleDeleteExpense_def)

lemma setAlertsShown_Nil [simp]: "setAlertsShown [] st = st"
  by (simp add: setAlertsShown_def)









subsection \<open>The month-over-month trend\<close>

















subsection \<open>The category breakdown\<close>
























lemma getCategoryBreakdown_unregistered:
  "getCategoryBreakdown [housing] twoMonths = Inl TypeError"
  by (simp add: getCategoryBreakdown_def initCategoryTotals_def Object_values_def twoMonths_def
        spent500_def spent800_def housing_def)





end
